theory Spec2Isabelle
  imports Complex_Main
begin

section \<open>JavaScript numbers\<close>

text \<open>
  The services compute with JavaScript numbers. A finite number is modelled by the real it
  denotes (IEEE rounding error and overflow are not modelled, and \<open>-0\<close> is identified with
  \<open>0\<close>); the three non-finite values are kept apart, because division by zero produces
  them instead of raising: \<open>0 / 0\<close> is \<open>NaN\<close> and \<open>x / 0\<close> is an infinity. Since the code
  rounds doubles, what is stated below of a computed amount is stated at a given input,
  where double arithmetic gives the same cents, or where the arithmetic is exact.
\<close>

datatype jsnum = Num real | PInf | NInf | NaN

fun jneg :: "jsnum \<Rightarrow> jsnum" where
  "jneg (Num x) = Num (- x)"
| "jneg PInf = NInf"
| "jneg NInf = PInf"
| "jneg NaN = NaN"

fun jadd :: "jsnum \<Rightarrow> jsnum \<Rightarrow> jsnum" where
  "jadd NaN _ = NaN"
| "jadd _ NaN = NaN"
| "jadd (Num x) (Num y) = Num (x + y)"
| "jadd PInf NInf = NaN"
| "jadd NInf PInf = NaN"
| "jadd PInf _ = PInf"
| "jadd NInf _ = NInf"
| "jadd (Num x) PInf = PInf"
| "jadd (Num x) NInf = NInf"

definition jsub :: "jsnum \<Rightarrow> jsnum \<Rightarrow> jsnum" where
  "jsub a b = jadd a (jneg b)"

fun jmul :: "jsnum \<Rightarrow> jsnum \<Rightarrow> jsnum" where
  "jmul NaN _ = NaN"
| "jmul _ NaN = NaN"
| "jmul (Num x) (Num y) = Num (x * y)"
| "jmul PInf (Num y) = (if y = 0 then NaN else if 0 < y then PInf else NInf)"
| "jmul NInf (Num y) = (if y = 0 then NaN else if 0 < y then NInf else PInf)"
| "jmul (Num x) PInf = (if x = 0 then NaN else if 0 < x then PInf else NInf)"
| "jmul (Num x) NInf = (if x = 0 then NaN else if 0 < x then NInf else PInf)"
| "jmul PInf PInf = PInf"
| "jmul NInf NInf = PInf"
| "jmul PInf NInf = NInf"
| "jmul NInf PInf = NInf"

fun jdiv :: "jsnum \<Rightarrow> jsnum \<Rightarrow> jsnum" where
  "jdiv NaN _ = NaN"
| "jdiv _ NaN = NaN"
| "jdiv (Num x) (Num y) =
     (if y \<noteq> 0 then Num (x / y)
      else if x = 0 then NaN else if 0 < x then PInf else NInf)"
| "jdiv (Num x) PInf = Num 0"
| "jdiv (Num x) NInf = Num 0"
| "jdiv PInf (Num y) = (if 0 \<le> y then PInf else NInf)"
| "jdiv NInf (Num y) = (if 0 \<le> y then NInf else PInf)"
| "jdiv PInf _ = NaN"
| "jdiv NInf _ = NaN"

text \<open>\<open>Math.round\<close> rounds to the nearest integer, a tie towards \<open>+\<infinity>\<close>.\<close>

definition round_half_up :: "real \<Rightarrow> real" where
  "round_half_up x = of_int \<lfloor>x + 1 / 2\<rfloor>"

fun Math_round :: "jsnum \<Rightarrow> jsnum" where
  "Math_round (Num x) = Num (round_half_up x)"
| "Math_round v = v"

fun Math_max :: "jsnum \<Rightarrow> jsnum \<Rightarrow> jsnum" where
  "Math_max NaN _ = NaN"
| "Math_max _ NaN = NaN"
| "Math_max (Num x) (Num y) = Num (max x y)"
| "Math_max PInf _ = PInf"
| "Math_max _ PInf = PInf"
| "Math_max NInf v = v"
| "Math_max v NInf = v"

text \<open>The idiom \<open>Math.round(x * 100) / 100\<close>, on a number that may be non-finite and on
  one known to be finite.\<close>

definition round2 :: "jsnum \<Rightarrow> jsnum" where
  "round2 x = jdiv (Math_round (jmul x (Num 100))) (Num 100)"

definition round2r :: "real \<Rightarrow> real" where
  "round2r x = round_half_up (x * 100) / 100"

section \<open>Loan amortization (loan.service.ts)\<close>

text \<open>A schedule row. The \<open>payment_date\<close> of row \<open>i\<close> is the day of the call moved \<open>i\<close>
  months ahead; it depends on the clock only and is left out. The row's \<open>total_payment\<close>
  is \<open>row_total_payment\<close> here, the name \<open>total_payment\<close> being the field of the result.
  The term is a whole number of months.\<close>

record LoanPaymentSchedule =
  payment_number :: nat
  principal_payment :: jsnum
  interest_payment :: jsnum
  row_total_payment :: jsnum
  remaining_balance :: jsnum

record LoanCalculation =
  monthly_payment :: jsnum
  total_payment :: jsnum
  total_interest :: jsnum
  schedule :: "LoanPaymentSchedule list"

text \<open>The body of \<open>for (let i = 1; i <= termMonths; i++)\<close>, from iteration \<open>i\<close> on, with
  the running \<open>remainingBalance\<close>.\<close>

function schedule_loop ::
  "jsnum \<Rightarrow> real \<Rightarrow> nat \<Rightarrow> nat \<Rightarrow> jsnum \<Rightarrow> LoanPaymentSchedule list" where
  "schedule_loop monthlyPayment monthlyRate termMonths i remainingBalance =
     (if i \<le> termMonths then
        (let interestPayment = jmul remainingBalance (Num monthlyRate);
             principalPayment = jsub monthlyPayment interestPayment;
             remainingBalance1 = jsub remainingBalance principalPayment;
             remainingBalance2 = (if i = termMonths then Num 0 else remainingBalance1)
         in \<lparr> payment_number = i,
              principal_payment = round2 principalPayment,
              interest_payment = round2 interestPayment,
              row_total_payment = round2 monthlyPayment,
              remaining_balance = Math_max (Num 0) (round2 remainingBalance2) \<rparr>
            # schedule_loop monthlyPayment monthlyRate termMonths (i + 1) remainingBalance2)
      else [])"
  by pat_completeness auto
termination
  by (relation "measure (\<lambda>(m, r, n, i, b). n + 1 - i)") auto

declare schedule_loop.simps [simp del]

definition calculateLoan :: "real \<Rightarrow> real \<Rightarrow> nat \<Rightarrow> LoanCalculation" where
  "calculateLoan principalAmt annualRate termMonths =
     (let monthlyRate = annualRate / 12 / 100;
          monthlyPayment =
            jdiv (Num (principalAmt * (monthlyRate * (1 + monthlyRate) ^ termMonths)))
                 (Num ((1 + monthlyRate) ^ termMonths - 1));
          sched = schedule_loop monthlyPayment monthlyRate termMonths 1 (Num principalAmt);
          totalPayment = jmul monthlyPayment (Num (real termMonths));
          totalInterest = jsub totalPayment (Num principalAmt)
      in \<lparr> monthly_payment = round2 monthlyPayment,
           total_payment = round2 totalPayment,
           total_interest = round2 totalInterest,
           schedule = sched \<rparr>)"

section \<open>Deposit interest (deposit.service.ts)\<close>

text \<open>The result of both deposit calculators; the compound one calls its third field
  \<open>monthly_interest_avg\<close>.\<close>

record DepositCalculation =
  interest_earned :: real
  final_amount :: real
  monthly_interest :: jsnum

definition calculateDeposit :: "real \<Rightarrow> real \<Rightarrow> nat \<Rightarrow> DepositCalculation" where
  "calculateDeposit principalAmt annualRate termMonths =
     (let interest = (principalAmt * annualRate * real termMonths) / (12 * 100);
          finalAmount = principalAmt + interest;
          monthlyInterest = jdiv (Num interest) (Num (real termMonths))
      in \<lparr> interest_earned = round2r interest,
           final_amount = round2r finalAmount,
           monthly_interest = round2 monthlyInterest \<rparr>)"

definition calculateCompoundDeposit :: "real \<Rightarrow> real \<Rightarrow> nat \<Rightarrow> DepositCalculation" where
  "calculateCompoundDeposit principalAmt annualRate termMonths =
     (let monthlyRate = annualRate / 12 / 100;
          finalAmount = principalAmt * (1 + monthlyRate) ^ termMonths;
          interest = finalAmount - principalAmt
      in \<lparr> interest_earned = round2r interest,
           final_amount = round2r finalAmount,
           monthly_interest = round2 (jdiv (Num interest) (Num (real termMonths))) \<rparr>)"

section \<open>The datastore\<close>

text \<open>
  Rows carry the columns the services read or write (creation and update timestamps are
  left out). A numeric column holds the number it denotes, stored as given (the rounding
  and the range of \<open>DECIMAL(18, 2)\<close> are not modelled). A table is the list of its rows in
  storage order, so that \<open>rows[0]\<close> and \<open>LIMIT 1\<close> are the first matching row. Identifiers
  are UUID texts. Calls of the service layer run one at a time; the row locks modelled are
  those a call holds against a call it awaits itself, in \<open>createTransaction\<close>.
\<close>

type_synonym id = string

datatype Currency = KZT | USD | EUR | RUB

datatype AccountType = CHECKING | SAVINGS_ACCOUNT | DEPOSIT_ACCOUNT | CREDIT_ACCOUNT

datatype AccountStatus = ACTIVE | BLOCKED | CLOSED

datatype TransactionType =
  TRANSFER | PAYMENT | DEPOSIT | WITHDRAWAL | FEE | INTEREST | CASHBACK | REFUND

datatype TransactionStatus = PENDING | COMPLETED | FAILED | CANCELLED

datatype DepositType = FIXED | FLEXIBLE | SAVINGS

datatype DepositStatus = DEPOSIT_ACTIVE | DEPOSIT_CLOSED | DEPOSIT_MATURED

record User =
  usr_id :: id
  phone :: string

record Account =
  acc_id :: id
  acc_user_id :: id
  account_number :: string
  account_type :: AccountType
  acc_currency :: Currency
  balance :: real
  available_balance :: real
  acc_status :: AccountStatus

record Transaction =
  tx_id :: id
  from_account_id :: "id option"
  to_account_id :: "id option"
  transaction_type :: TransactionType
  amount :: real
  tx_currency :: Currency
  exchange_rate :: real
  fee :: real
  tx_status :: TransactionStatus
  description :: "string option"
  reference_number :: string
  metadata :: "(string \<times> string) list option"

record Deposit =
  dep_id :: id
  dep_user_id :: id
  dep_account_id :: "id option"
  deposit_type :: DepositType
  principal_amount :: real
  interest_rate :: real
  term_months :: nat
  current_balance :: real
  dep_status :: DepositStatus
  start_date :: nat
  maturity_date :: nat
  is_auto_renewal :: bool

record db =
  users :: "User list"
  accounts :: "Account list"
  transactions :: "Transaction list"
  deposits :: "Deposit list"

text \<open>A thrown \<open>new Error(message)\<close>, and an error raised by the datastore itself (a
  violated constraint, named, or a rejected call).\<close>

datatype error = Error string | DatabaseError string

text \<open>JavaScript truthiness of an optional string: \<open>undefined\<close>, \<open>null\<close> and \<open>""\<close> are
  falsy; \<open>x || null\<close> keeps a truthy \<open>x\<close>.\<close>

definition truthy :: "string option \<Rightarrow> bool" where
  "truthy x = (case x of None \<Rightarrow> False | Some v \<Rightarrow> v \<noteq> [])"

definition or_null :: "string option \<Rightarrow> string option" where
  "or_null x = (if truthy x then x else None)"

section \<open>Account ledger (account.service.ts)\<close>

definition getAccountById :: "id \<Rightarrow> db \<Rightarrow> Account option" where
  "getAccountById accountId s = find (\<lambda>a. acc_id a = accountId) (accounts s)"

definition isAccountOwner :: "id \<Rightarrow> id \<Rightarrow> db \<Rightarrow> bool" where
  "isAccountOwner accountId userId s =
     (find (\<lambda>a. acc_id a = accountId \<and> acc_user_id a = userId) (accounts s) \<noteq> None)"

text \<open>The loop \<open>while (!isUnique)\<close> of \<open>createAccount\<close> draws account numbers until one is
  unused. The draws of \<open>generateAccountNumber()\<close> are given as a list; \<open>None\<close> says that
  the loop has not ended within them.\<close>

fun pick_account_number :: "string list \<Rightarrow> db \<Rightarrow> string option" where
  "pick_account_number [] s = None"
| "pick_account_number (accountNumber # draws) s =
     (if find (\<lambda>a. account_number a = accountNumber) (accounts s) = None
      then Some accountNumber
      else pick_account_number draws s)"

record CreateAccountDto =
  dto_account_type :: AccountType
  dto_currency :: Currency

text \<open>\<open>newId\<close> is the identifier \<open>uuid_generate_v4()\<close> gives the row. The insert is
  refused on a duplicate primary key and on an owner that is no user (foreign key).\<close>

definition createAccount ::
  "id \<Rightarrow> string list \<Rightarrow> id \<Rightarrow> CreateAccountDto \<Rightarrow> db \<Rightarrow> ((error + Account) \<times> db) option" where
  "createAccount newId draws userId accountData s =
     (case pick_account_number draws s of
        None \<Rightarrow> None
      | Some accountNumber \<Rightarrow>
          Some (if getAccountById newId s \<noteq> None then (Inl (DatabaseError ''accounts_pkey''), s)
                else if find (\<lambda>u. usr_id u = userId) (users s) = None
                then (Inl (DatabaseError ''accounts_user_id_fkey''), s)
                else
                  (let row = \<lparr> acc_id = newId, acc_user_id = userId,
                               account_number = accountNumber,
                               account_type = dto_account_type accountData,
                               acc_currency = dto_currency accountData,
                               balance = 0, available_balance = 0,
                               acc_status = ACTIVE \<rparr>
                   in (Inr row, s\<lparr>accounts := accounts s @ [row]\<rparr>))))"

text \<open>\<open>updateAccountBalance\<close> opens a connection of its own (\<open>getClient()\<close>), and its
  \<open>BEGIN\<close> \<dots> \<open>COMMIT\<close> is a transaction of that connection: on success the new balance
  is committed when the call returns, whatever the caller's own transaction does later.
  The update is refused by the column constraint \<open>CHECK (balance >= 0)\<close>.\<close>

definition updateAccountBalance :: "id \<Rightarrow> real \<Rightarrow> bool \<Rightarrow> db \<Rightarrow> (error + unit) \<times> db" where
  "updateAccountBalance accountId amt isDebit s =
     (case getAccountById accountId s of
        None \<Rightarrow> (Inl (Error ''Account not found''), s)
      | Some row \<Rightarrow>
          (let currentBalance = balance row;
               currentAvailable = available_balance row
           in if isDebit \<and> currentAvailable < amt then (Inl (Error ''Insufficient funds''), s)
              else
                (let newBalance = (if isDebit then currentBalance - amt else currentBalance + amt);
                     newAvailable = (if isDebit then currentAvailable - amt else currentAvailable + amt)
                 in if newBalance < 0 then (Inl (DatabaseError ''accounts_balance_check''), s)
                    else (Inr (),
                          s\<lparr>accounts :=
                              map (\<lambda>a. if acc_id a = accountId
                                        then a\<lparr>balance := newBalance, available_balance := newAvailable\<rparr>
                                        else a) (accounts s)\<rparr>))))"

definition set_account_status :: "AccountStatus \<Rightarrow> id \<Rightarrow> db \<Rightarrow> db" where
  "set_account_status st accountId s =
     s\<lparr>accounts := map (\<lambda>a. if acc_id a = accountId then a\<lparr>acc_status := st\<rparr> else a) (accounts s)\<rparr>"

definition blockAccount :: "id \<Rightarrow> db \<Rightarrow> (error + unit) \<times> db" where
  "blockAccount accountId s = (Inr (), set_account_status BLOCKED accountId s)"

definition unblockAccount :: "id \<Rightarrow> db \<Rightarrow> (error + unit) \<times> db" where
  "unblockAccount accountId s = (Inr (), set_account_status ACTIVE accountId s)"

definition closeAccount :: "id \<Rightarrow> db \<Rightarrow> (error + unit) \<times> db" where
  "closeAccount accountId s =
     (case getAccountById accountId s of
        None \<Rightarrow> (Inl (Error ''Account not found''), s)
      | Some row \<Rightarrow>
          if balance row \<noteq> 0 then (Inl (Error ''Cannot close account with non-zero balance''), s)
          else (Inr (), set_account_status CLOSED accountId s))"

section \<open>Transaction processor (transaction.service.ts)\<close>

record CreateTransactionDto =
  dto_from_account_id :: "id option"
  dto_to_account_id :: "id option"
  dto_transaction_type :: TransactionType
  dto_amount :: real
  dto_tx_currency :: Currency
  dto_description :: "string option"
  dto_metadata :: "(string \<times> string) list option"

text \<open>
  The datastore calls of \<open>createTransaction\<close> after \<open>BEGIN\<close>. Each is awaited inside the
  \<open>try\<close> block and may be rejected by the datastore (no free connection within
  \<open>connectionTimeoutMillis\<close>, a lost connection); \<open>fails\<close> says which are.
  \<open>newId\<close> and \<open>referenceNumber\<close> are what \<open>uuid_generate_v4()\<close> and
  \<open>generateReferenceNumber()\<close> return.
\<close>

datatype step = INSERT_TRANSACTION | DEBIT | CREDIT | UPDATE_STATUS | COMMIT

record Env =
  newId :: id
  referenceNumber :: string
  fails :: "step \<Rightarrow> bool"

definition rejected :: error where
  "rejected = DatabaseError ''call rejected''"

text \<open>The constraints of table \<open>transactions\<close>: primary key, unique reference number,
  \<open>check_accounts\<close>, \<open>CHECK (amount > 0)\<close> and the two foreign keys.\<close>

definition insert_violation :: "Transaction \<Rightarrow> db \<Rightarrow> string option" where
  "insert_violation row s =
     (if find (\<lambda>t. tx_id t = tx_id row) (transactions s) \<noteq> None then Some ''transactions_pkey''
      else if find (\<lambda>t. reference_number t = reference_number row) (transactions s) \<noteq> None
      then Some ''transactions_reference_number_key''
      else if from_account_id row = None \<and> to_account_id row = None then Some ''check_accounts''
      else if \<not> 0 < amount row then Some ''transactions_amount_check''
      else if (case from_account_id row of None \<Rightarrow> False | Some a \<Rightarrow> getAccountById a s = None)
      then Some ''transactions_from_account_id_fkey''
      else if (case to_account_id row of None \<Rightarrow> False | Some a \<Rightarrow> getAccountById a s = None)
      then Some ''transactions_to_account_id_fkey''
      else None)"

text \<open>Lines 32--51: the referenced accounts exist and are active.\<close>

definition verify_account :: "string \<Rightarrow> id option \<Rightarrow> db \<Rightarrow> error option" where
  "verify_account side accountId s =
     (case or_null accountId of
        None \<Rightarrow> None
      | Some a \<Rightarrow>
          (case getAccountById a s of
             None \<Rightarrow> Some (Error (side @ '' account not found''))
           | Some row \<Rightarrow>
               if acc_status row \<noteq> ACTIVE then Some (Error (side @ '' account is not active''))
               else None))"

text \<open>
  The row locks of the pending insert. The foreign keys of \<open>transactions\<close> make the
  \<open>INSERT\<close> lock the account rows it references \<open>FOR KEY SHARE\<close>, for as long as the
  transaction of \<open>createTransaction\<close> is open.
\<close>

definition key_share_locks :: "Transaction \<Rightarrow> id list" where
  "key_share_locks row =
     (case from_account_id row of None \<Rightarrow> [] | Some a \<Rightarrow> [a])
     @ (case to_account_id row of None \<Rightarrow> [] | Some a \<Rightarrow> [a])"

text \<open>
  Lines 86--101: one leg, through \<open>updateAccountBalance\<close> and so through a second
  connection. A rejected call has written nothing. A call that is served begins with
  \<open>SELECT ... FOR UPDATE\<close> on the account row, which waits for every other transaction that
  holds a lock on that row. The transaction of the caller holds one on each row in
  \<open>locked\<close> and ends only after the leg has returned, and no lock or statement timeout is
  configured: on such a row the leg does not return. \<open>None\<close> stands for a call that does
  not return; it has committed nothing.
\<close>

definition balance_leg ::
  "Env \<Rightarrow> step \<Rightarrow> id list \<Rightarrow> id option \<Rightarrow> real \<Rightarrow> bool \<Rightarrow> db \<Rightarrow> (error + unit) option \<times> db" where
  "balance_leg env st locked accountId amt isDebit s =
     (case or_null accountId of
        None \<Rightarrow> (Some (Inr ()), s)
      | Some a \<Rightarrow>
          if fails env st then (Some (Inl rejected), s)
          else if a \<in> set locked then (None, s)
          else (case updateAccountBalance a amt isDebit s of (r, s1) \<Rightarrow> (Some r, s1)))"

text \<open>
  The state threaded through is the committed content of the datastore. The pending row
  is written on the connection of \<open>createTransaction\<close> and is visible to no other
  connection before \<open>COMMIT\<close>: it joins the state at the commit, and the \<open>ROLLBACK\<close> of the
  \<open>catch\<close> block discards it. What a leg commits on its own connection is part of the
  state from the moment it returns. The first component of the result is \<open>None\<close> when the
  call does not return.
\<close>

definition createTransaction ::
  "Env \<Rightarrow> CreateTransactionDto \<Rightarrow> db \<Rightarrow> (error + Transaction) option \<times> db" where
  "createTransaction env transactionData s =
     (case verify_account ''Source'' (dto_from_account_id transactionData) s of
        Some e \<Rightarrow> (Some (Inl e), s)
      | None \<Rightarrow>
     (case verify_account ''Destination'' (dto_to_account_id transactionData) s of
        Some e \<Rightarrow> (Some (Inl e), s)
      | None \<Rightarrow>
     (let pending = \<lparr> tx_id = newId env,
                      from_account_id = or_null (dto_from_account_id transactionData),
                      to_account_id = or_null (dto_to_account_id transactionData),
                      transaction_type = dto_transaction_type transactionData,
                      amount = dto_amount transactionData,
                      tx_currency = dto_tx_currency transactionData,
                      exchange_rate = 1, fee = 0,
                      tx_status = PENDING,
                      description = or_null (dto_description transactionData),
                      reference_number = referenceNumber env,
                      metadata = dto_metadata transactionData \<rparr>
      in if fails env INSERT_TRANSACTION then (Some (Inl rejected), s)
         else
     (case insert_violation pending s of
        Some c \<Rightarrow> (Some (Inl (DatabaseError c)), s)
      | None \<Rightarrow>
     (case balance_leg env DEBIT (key_share_locks pending)
             (dto_from_account_id transactionData) (dto_amount transactionData) True s of
        (None, s1) \<Rightarrow> (None, s1)
      | (Some (Inl e), s1) \<Rightarrow> (Some (Inl e), s1)
      | (Some (Inr _), s1) \<Rightarrow>
     (case balance_leg env CREDIT (key_share_locks pending)
             (dto_to_account_id transactionData) (dto_amount transactionData) False s1 of
        (None, s2) \<Rightarrow> (None, s2)
      | (Some (Inl e), s2) \<Rightarrow> (Some (Inl e), s2)
      | (Some (Inr _), s2) \<Rightarrow>
          if fails env UPDATE_STATUS \<or> fails env COMMIT then (Some (Inl rejected), s2)
          else
            (let completed = pending\<lparr>tx_status := COMPLETED\<rparr>
             in (Some (Inr completed), s2\<lparr>transactions := transactions s2 @ [completed]\<rparr>))))))))"

definition currency_code :: "Currency \<Rightarrow> string" where
  "currency_code c = (case c of KZT \<Rightarrow> ''KZT'' | USD \<Rightarrow> ''USD'' | EUR \<Rightarrow> ''EUR'' | RUB \<Rightarrow> ''RUB'')"

text \<open>The object literals the two transfer wrappers pass to \<open>createTransaction\<close>
  (lines 198--209 and 258--269).\<close>

definition phone_transfer ::
  "id \<Rightarrow> Account \<Rightarrow> Account \<Rightarrow> string \<Rightarrow> real \<Rightarrow> string option \<Rightarrow> CreateTransactionDto" where
  "phone_transfer fromAccountId toAccount fromAccount toPhone amt descr =
     \<lparr> dto_from_account_id = Some fromAccountId,
       dto_to_account_id = Some (acc_id toAccount),
       dto_transaction_type = TRANSFER,
       dto_amount = amt,
       dto_tx_currency = acc_currency fromAccount,
       dto_description = (if truthy descr then descr else Some (''Transfer to '' @ toPhone)),
       dto_metadata = Some [(''recipient_phone'', toPhone), (''transfer_type'', ''p2p_phone'')] \<rparr>"

definition account_transfer ::
  "id \<Rightarrow> Account \<Rightarrow> Account \<Rightarrow> string \<Rightarrow> real \<Rightarrow> string option \<Rightarrow> CreateTransactionDto" where
  "account_transfer fromAccountId toAccount fromAccount toAccountNumber amt descr =
     \<lparr> dto_from_account_id = Some fromAccountId,
       dto_to_account_id = Some (acc_id toAccount),
       dto_transaction_type = TRANSFER,
       dto_amount = amt,
       dto_tx_currency = acc_currency fromAccount,
       dto_description =
         (if truthy descr then descr else Some (''Transfer to '' @ toAccountNumber)),
       dto_metadata =
         Some [(''recipient_account'', toAccountNumber), (''transfer_type'', ''p2p_account'')] \<rparr>"

text \<open>\<open>transferToPhone\<close> ends its \<open>try\<close> block with a bare \<open>return;\<close>: where the awaited
  \<open>createTransaction\<close> returns a transaction, the value of the call is \<open>undefined\<close>, here
  \<open>Inr None\<close>. Both wrappers await \<open>createTransaction\<close> and do not return where it does not.\<close>

definition transferToPhone ::
  "Env \<Rightarrow> id \<Rightarrow> id \<Rightarrow> string \<Rightarrow> real \<Rightarrow> string option \<Rightarrow> db
     \<Rightarrow> (error + Transaction option) option \<times> db" where
  "transferToPhone env fromUserId fromAccountId toPhone amt descr s =
     (case find (\<lambda>u. phone u = toPhone) (users s) of
        None \<Rightarrow> (Some (Inl (Error ''Recipient not found'')), s)
      | Some recipient \<Rightarrow>
     (case getAccountById fromAccountId s of
        None \<Rightarrow> (Some (Inl (Error ''Source account not found'')), s)
      | Some fromAccount \<Rightarrow>
     (case find (\<lambda>a. acc_user_id a = usr_id recipient
                     \<and> acc_currency a = acc_currency fromAccount
                     \<and> acc_status a = ACTIVE) (accounts s) of
        None \<Rightarrow>
          (Some (Inl (Error (''Recipient does not have an active ''
                              @ currency_code (acc_currency fromAccount) @ '' account''))), s)
      | Some toAccount \<Rightarrow>
     (case createTransaction env
             (phone_transfer fromAccountId toAccount fromAccount toPhone amt descr) s of
        (None, s') \<Rightarrow> (None, s')
      | (Some (Inl e), s') \<Rightarrow> (Some (Inl e), s')
      | (Some (Inr data), s') \<Rightarrow> (Some (Inr None), s')))))"

definition transferToAccount ::
  "Env \<Rightarrow> id \<Rightarrow> string \<Rightarrow> real \<Rightarrow> string option \<Rightarrow> db
     \<Rightarrow> (error + Transaction) option \<times> db" where
  "transferToAccount env fromAccountId toAccountNumber amt descr s =
     (case find (\<lambda>a. account_number a = toAccountNumber) (accounts s) of
        None \<Rightarrow> (Some (Inl (Error ''Destination account not found'')), s)
      | Some toAccount \<Rightarrow>
          if acc_status toAccount \<noteq> ACTIVE
          then (Some (Inl (Error ''Destination account is not active'')), s)
          else
     (case getAccountById fromAccountId s of
        None \<Rightarrow> (Some (Inl (Error ''Source account not found'')), s)
      | Some fromAccount \<Rightarrow>
          if acc_currency fromAccount \<noteq> acc_currency toAccount
          then (Some (Inl (Error ''Currency mismatch. Cross-currency transfers not yet supported.'')), s)
          else
            createTransaction env
              (account_transfer fromAccountId toAccount fromAccount toAccountNumber amt descr) s))"

section \<open>Deposits (deposit.service.ts)\<close>

text \<open>
  Dates are counted in whole months; \<open>setMonth(getMonth() + n)\<close> adds \<open>n\<close>.

  The driver hands the \<open>DECIMAL\<close> columns of a row to the service as text (the pool installs
  no type parser, and this service, unlike \<open>account.service.ts\<close>, applies no \<open>parseFloat\<close>),
  and JavaScript's \<open>+\<close> concatenates when an operand is text. The definitions of this
  section compute with the numbers the texts denote. Where the code adds to such a text
  (\<open>newBalance\<close> in \<open>accrueInterest\<close>, \<open>finalAmount\<close> in \<open>calculateDeposit\<close> on the fields of a
  row, \<open>currentBalance + amount\<close> in \<open>updateAccountBalance\<close> on the amount of an early
  closure) the amount it writes or returns is not the sum these definitions give, and
  where the concatenated text is no number the write is refused. The statements below
  about deposits are about which rows a call may write and the status it gives them, at
  inputs where the code makes the same writes, or for whatever amount is written; none is
  about an amount computed from a row.
\<close>

record CreateDepositDto =
  dto_deposit_type :: DepositType
  dto_principal_amount :: real
  dto_interest_rate :: real
  dto_term_months :: nat
  dto_is_auto_renewal :: "bool option"

definition getDepositById :: "id \<Rightarrow> db \<Rightarrow> Deposit option" where
  "getDepositById depositId s = find (\<lambda>d. dep_id d = depositId) (deposits s)"

text \<open>The constraints of table \<open>deposits\<close>: primary key, the two foreign keys,
  \<open>CHECK (principal_amount > 0)\<close> and \<open>CHECK (term_months > 0)\<close>.\<close>

definition deposit_violation :: "Deposit \<Rightarrow> db \<Rightarrow> string option" where
  "deposit_violation row s =
     (if getDepositById (dep_id row) s \<noteq> None then Some ''deposits_pkey''
      else if find (\<lambda>u. usr_id u = dep_user_id row) (users s) = None
      then Some ''deposits_user_id_fkey''
      else if (case dep_account_id row of None \<Rightarrow> False | Some a \<Rightarrow> getAccountById a s = None)
      then Some ''deposits_account_id_fkey''
      else if \<not> 0 < principal_amount row then Some ''deposits_principal_amount_check''
      else if \<not> 0 < term_months row then Some ''deposits_term_months_check''
      else None)"

definition update_deposit :: "id \<Rightarrow> (Deposit \<Rightarrow> Deposit) \<Rightarrow> db \<Rightarrow> db" where
  "update_deposit depositId f s =
     s\<lparr>deposits := map (\<lambda>d. if dep_id d = depositId then f d else d) (deposits s)\<rparr>"

definition openDeposit ::
  "id \<Rightarrow> nat \<Rightarrow> id \<Rightarrow> id \<Rightarrow> CreateDepositDto \<Rightarrow> db \<Rightarrow> (error + Deposit) \<times> db" where
  "openDeposit depositId now userId accountId depositData s =
     (if \<not> isAccountOwner accountId userId s
      then (Inl (Error ''Account does not belong to user''), s)
      else
        (case updateAccountBalance accountId (dto_principal_amount depositData) True s of
           (Inl e, s1) \<Rightarrow> (Inl e, s1)
         | (Inr _, s1) \<Rightarrow>
             (let startDate = now;
                  maturityDate = startDate + dto_term_months depositData;
                  row = \<lparr> dep_id = depositId, dep_user_id = userId,
                          dep_account_id = Some accountId,
                          deposit_type = dto_deposit_type depositData,
                          principal_amount = dto_principal_amount depositData,
                          interest_rate = dto_interest_rate depositData,
                          term_months = dto_term_months depositData,
                          current_balance = dto_principal_amount depositData,
                          dep_status = DEPOSIT_ACTIVE,
                          start_date = startDate,
                          maturity_date = maturityDate,
                          is_auto_renewal =
                            (case dto_is_auto_renewal depositData of None \<Rightarrow> False | Some b \<Rightarrow> b) \<rparr>
              in case deposit_violation row s1 of
                   Some c \<Rightarrow> (Inl (DatabaseError c), s1)
                 | None \<Rightarrow> (Inr row, s1\<lparr>deposits := deposits s1 @ [row]\<rparr>))))"

definition accrueInterest :: "id \<Rightarrow> db \<Rightarrow> (error + unit) \<times> db" where
  "accrueInterest depositId s =
     (case getDepositById depositId s of
        None \<Rightarrow> (Inl (Error ''Deposit not found''), s)
      | Some deposit \<Rightarrow>
          if dep_status deposit \<noteq> DEPOSIT_ACTIVE then (Inl (Error ''Deposit is not active''), s)
          else
            (let monthlyRate = interest_rate deposit / 12 / 100;
                 interestAmount = current_balance deposit * monthlyRate
             in if deposit_type deposit = FIXED
                then (let newBalance = current_balance deposit + interestAmount
                      in (Inr (), update_deposit depositId (\<lambda>d. d\<lparr>current_balance := newBalance\<rparr>) s))
                else (Inr (), s)))"

text \<open>The amount \<open>closeDeposit\<close> gives back (lines 285--312).\<close>

definition returnAmount :: "Deposit \<Rightarrow> bool \<Rightarrow> real" where
  "returnAmount deposit isEarly =
     (if isEarly then
        (if deposit_type deposit = FIXED then principal_amount deposit
         else current_balance deposit)
      else
        final_amount
          (if deposit_type deposit = FIXED
           then calculateCompoundDeposit (principal_amount deposit) (interest_rate deposit)
                  (term_months deposit)
           else calculateDeposit (principal_amount deposit) (interest_rate deposit)
                  (term_months deposit)))"

definition closeDeposit :: "id \<Rightarrow> bool \<Rightarrow> db \<Rightarrow> (error + real) \<times> db" where
  "closeDeposit depositId isEarly s =
     (case getDepositById depositId s of
        None \<Rightarrow> (Inl (Error ''Deposit not found''), s)
      | Some deposit \<Rightarrow>
          if dep_status deposit \<noteq> DEPOSIT_ACTIVE then (Inl (Error ''Deposit is not active''), s)
          else
            (case (case or_null (dep_account_id deposit) of
                     None \<Rightarrow> (Inr (), s)
                   | Some a \<Rightarrow> updateAccountBalance a (returnAmount deposit isEarly) False s) of
               (Inl e, s1) \<Rightarrow> (Inl e, s1)
             | (Inr _, s1) \<Rightarrow>
                 (Inr (returnAmount deposit isEarly),
                  update_deposit depositId
                    (\<lambda>d. d\<lparr>dep_status := DEPOSIT_CLOSED,
                            current_balance := returnAmount deposit isEarly\<rparr>) s1)))"

definition renewDeposit :: "nat \<Rightarrow> id \<Rightarrow> db \<Rightarrow> (error + Deposit) \<times> db" where
  "renewDeposit now depositId s =
     (case getDepositById depositId s of
        None \<Rightarrow> (Inl (Error ''Deposit not found''), s)
      | Some deposit \<Rightarrow>
          if \<not> is_auto_renewal deposit
          then (Inl (Error ''Auto renewal is not enabled for this deposit''), s)
          else
            (let calculation =
                   (if deposit_type deposit = FIXED
                    then calculateCompoundDeposit (principal_amount deposit)
                           (interest_rate deposit) (term_months deposit)
                    else calculateDeposit (principal_amount deposit)
                           (interest_rate deposit) (term_months deposit));
                 newStartDate = now;
                 newMaturityDate = newStartDate + term_months deposit;
                 renew = (\<lambda>d. d\<lparr>principal_amount := final_amount calculation,
                                 current_balance := final_amount calculation,
                                 start_date := newStartDate,
                                 maturity_date := newMaturityDate,
                                 dep_status := DEPOSIT_ACTIVE\<rparr>)
             in (Inr (renew deposit), update_deposit depositId renew s)))"

definition toggleAutoRenewal :: "id \<Rightarrow> bool \<Rightarrow> db \<Rightarrow> (error + unit) \<times> db" where
  "toggleAutoRenewal depositId enabled s =
     (Inr (), update_deposit depositId (\<lambda>d. d\<lparr>is_auto_renewal := enabled\<rparr>) s)"

definition checkMaturedDeposits :: "nat \<Rightarrow> db \<Rightarrow> Deposit list" where
  "checkMaturedDeposits now s =
     filter (\<lambda>d. dep_status d = DEPOSIT_ACTIVE \<and> maturity_date d \<le> now) (deposits s)"

text \<open>The loop of \<open>processMaturedDeposits\<close>; an error of one deposit is logged and the
  loop goes on.\<close>

fun process_matured :: "nat \<Rightarrow> Deposit list \<Rightarrow> db \<Rightarrow> db" where
  "process_matured now [] s = s"
| "process_matured now (deposit # rest) s =
     process_matured now rest
       (if is_auto_renewal deposit then snd (renewDeposit now (dep_id deposit) s)
        else snd (closeDeposit (dep_id deposit) False s))"

definition processMaturedDeposits :: "nat \<Rightarrow> db \<Rightarrow> (error + unit) \<times> db" where
  "processMaturedDeposits now s = (Inr (), process_matured now (checkMaturedDeposits now s) s)"

section \<open>Histories of calls\<close>

text \<open>The sum of a list of numbers, added from the left.\<close>

definition jsum :: "jsnum list \<Rightarrow> jsnum" where
  "jsum xs = foldl jadd (Num 0) xs"

text \<open>A call of the service layer, and the committed datastore it leaves behind, whether
  it returned, threw or did not return. A \<open>createAccount\<close> whose loop has not ended has
  committed nothing. A history goes on after a call that does not return as after a
  restart of the service, which ends the transaction that call left open.\<close>

datatype operation =
    CreateAccount id "string list" id CreateAccountDto
  | UpdateAccountBalance id real bool
  | BlockAccount id
  | UnblockAccount id
  | CloseAccount id
  | CreateTransaction Env CreateTransactionDto
  | TransferToPhone Env id id string real "string option"
  | TransferToAccount Env id string real "string option"
  | OpenDeposit id nat id id CreateDepositDto
  | AccrueInterest id
  | CloseDeposit id bool
  | RenewDeposit nat id
  | ToggleAutoRenewal id bool
  | ProcessMaturedDeposits nat

fun apply_operation :: "operation \<Rightarrow> db \<Rightarrow> db" where
  "apply_operation (CreateAccount i draws u d) s =
     (case createAccount i draws u d s of None \<Rightarrow> s | Some r \<Rightarrow> snd r)"
| "apply_operation (UpdateAccountBalance a amt isDebit) s = snd (updateAccountBalance a amt isDebit s)"
| "apply_operation (BlockAccount a) s = snd (blockAccount a s)"
| "apply_operation (UnblockAccount a) s = snd (unblockAccount a s)"
| "apply_operation (CloseAccount a) s = snd (closeAccount a s)"
| "apply_operation (CreateTransaction env d) s = snd (createTransaction env d s)"
| "apply_operation (TransferToPhone env u a p amt descr) s = snd (transferToPhone env u a p amt descr s)"
| "apply_operation (TransferToAccount env a n amt descr) s = snd (transferToAccount env a n amt descr s)"
| "apply_operation (OpenDeposit i now u a d) s = snd (openDeposit i now u a d s)"
| "apply_operation (AccrueInterest i) s = snd (accrueInterest i s)"
| "apply_operation (CloseDeposit i isEarly) s = snd (closeDeposit i isEarly s)"
| "apply_operation (RenewDeposit now i) s = snd (renewDeposit now i s)"
| "apply_operation (ToggleAutoRenewal i b) s = snd (toggleAutoRenewal i b s)"
| "apply_operation (ProcessMaturedDeposits now) s = snd (processMaturedDeposits now s)"

fun run :: "operation list \<Rightarrow> db \<Rightarrow> db" where
  "run [] s = s"
| "run (operation # rest) s = run rest (apply_operation operation s)"

text \<open>\<open>n\<close> accrual passes over one deposit.\<close>

fun accrual_passes :: "nat \<Rightarrow> id \<Rightarrow> db \<Rightarrow> db" where
  "accrual_passes 0 depositId s = s"
| "accrual_passes (Suc n) depositId s = accrual_passes n depositId (snd (accrueInterest depositId s))"

text \<open>The invariant of the ledger: no account row has a negative balance.\<close>

definition no_negative_balance :: "db \<Rightarrow> bool" where
  "no_negative_balance s = list_all (\<lambda>a. 0 \<le> balance a) (accounts s)"

text \<open>The invariant of the deposits: identifiers are unique, and an active deposit that is
  not fixed has a \<open>current_balance\<close> equal to its \<open>principal_amount\<close>.\<close>

definition plain_balance :: "Deposit \<Rightarrow> bool" where
  "plain_balance d =
     (dep_status d = DEPOSIT_ACTIVE \<and> deposit_type d \<noteq> FIXED
      \<longrightarrow> current_balance d = principal_amount d)"

definition flexible_balances_intact :: "db \<Rightarrow> bool" where
  "flexible_balances_intact s =
     (distinct (map dep_id (deposits s)) \<and> list_all plain_balance (deposits s))"

section \<open>Example data\<close>

definition alice :: User where
  "alice = \<lparr> usr_id = ''u-alice'', phone = ''+77010000001'' \<rparr>"

definition bob :: User where
  "bob = \<lparr> usr_id = ''u-bob'', phone = ''+77010000002'' \<rparr>"

definition empty_bank :: db where
  "empty_bank = \<lparr> users = [alice, bob], accounts = [], transactions = [], deposits = [] \<rparr>"

definition checking_kzt :: CreateAccountDto where
  "checking_kzt = \<lparr> dto_account_type = CHECKING, dto_currency = KZT \<rparr>"

text \<open>Open an account, credit 1000, debit 400, try to debit 1000.\<close>

definition history :: "operation list" where
  "history =
     [CreateAccount ''a-alice'' [''40000000000000000001''] ''u-alice'' checking_kzt,
      UpdateAccountBalance ''a-alice'' 1000 False,
      UpdateAccountBalance ''a-alice'' 400 True,
      UpdateAccountBalance ''a-alice'' 1000 True]"

definition account_of :: "id \<Rightarrow> id \<Rightarrow> string \<Rightarrow> real \<Rightarrow> Account" where
  "account_of accountId userId accountNumber b =
     \<lparr> acc_id = accountId, acc_user_id = userId, account_number = accountNumber,
       account_type = CHECKING, acc_currency = KZT, balance = b, available_balance = b,
       acc_status = ACTIVE \<rparr>"

definition two_accounts :: db where
  "two_accounts =
     \<lparr> users = [alice, bob],
       accounts = [account_of ''a-alice'' ''u-alice'' ''40000000000000000001'' 1000,
                   account_of ''a-bob'' ''u-bob'' ''40000000000000000002'' 0],
       transactions = [], deposits = [] \<rparr>"

definition all_calls_served :: Env where
  "all_calls_served = \<lparr> newId = ''t-1'', referenceNumber = ''TXN-1'', fails = (\<lambda>st. False) \<rparr>"

definition debit_rejected :: Env where
  "debit_rejected = \<lparr> newId = ''t-1'', referenceNumber = ''TXN-1'', fails = (\<lambda>st. st = DEBIT) \<rparr>"

definition transfer_400 :: CreateTransactionDto where
  "transfer_400 =
     \<lparr> dto_from_account_id = Some ''a-alice'', dto_to_account_id = Some ''a-bob'',
       dto_transaction_type = TRANSFER, dto_amount = 400, dto_tx_currency = KZT,
       dto_description = None, dto_metadata = None \<rparr>"

definition no_legs :: CreateTransactionDto where
  "no_legs = transfer_400 \<lparr> dto_from_account_id := None, dto_to_account_id := None \<rparr>"

definition flexible_auto :: CreateDepositDto where
  "flexible_auto =
     \<lparr> dto_deposit_type = FLEXIBLE, dto_principal_amount = 1000, dto_interest_rate = 12,
       dto_term_months = 12, dto_is_auto_renewal = Some True \<rparr>"

text \<open>Open a flexible deposit with automatic renewal and close it early.\<close>

definition open_and_close :: "operation list" where
  "open_and_close =
     [OpenDeposit ''d-1'' 0 ''u-alice'' ''a-alice'' flexible_auto,
      CloseDeposit ''d-1'' True]"

text \<open>A flexible deposit is opened, accrued twice, renewed and accrued again.\<close>

definition deposit_life :: "operation list" where
  "deposit_life =
     [OpenDeposit ''d-1'' 0 ''u-alice'' ''a-alice'' flexible_auto,
      AccrueInterest ''d-1'', AccrueInterest ''d-1'',
      RenewDeposit 12 ''d-1'',
      AccrueInterest ''d-1'']"

section \<open>The amortization calculator\<close>

lemma round2_Num: "round2 (Num x) = Num (round2r x)"
  by (simp add: round2_def round2r_def)

lemma schedule_loop_step:
  assumes "i \<le> n"
  shows "schedule_loop (Num M) r n i (Num b) =
     \<lparr> payment_number = i,
       principal_payment = Num (round2r (M - b * r)),
       interest_payment = Num (round2r (b * r)),
       row_total_payment = Num (round2r M),
       remaining_balance = Num (max 0 (round2r (if i = n then 0 else b - (M - b * r)))) \<rparr>
     # schedule_loop (Num M) r n (i + 1) (Num (if i = n then 0 else b - (M - b * r)))"
proof -
  have e: "b - (M - b * r) = b + (b * r - M)" by simp
  show ?thesis using assms
    by (subst schedule_loop.simps) (simp add: Let_def jsub_def round2_Num e)
qed

lemma schedule_loop_end: "n < i \<Longrightarrow> schedule_loop M r n i b = []"
  by (subst schedule_loop.simps) simp

text \<open>The monthly payment of 100000 at 12 per cent over 12 months, before rounding: the
  exact value of \<open>1000 \<sqdot> 1.01\<^sup>1\<^sup>2 / (1.01\<^sup>1\<^sup>2 - 1)\<close>, about 8884.88.\<close>

lemma monthlyPayment_100000_12_12:
  "jdiv (Num (100000 * (12 / 12 / 100 * (1 + 12 / 12 / 100) ^ 12)))
        (Num ((1 + 12 / 12 / 100) ^ 12 - 1))
   = Num (1126825030131969720661201000 / 126825030131969720661201)"
  by (simp add: power_divide)

lemma schedule_100000_12_12:
  "map (\<lambda>row. (principal_payment row, remaining_balance row))
     (schedule (calculateLoan 100000 12 12)) =
   [(Num 7884.88, Num 92115.12), (Num 7963.73, Num 84151.39), (Num 8043.36, Num 76108.03),
    (Num 8123.80, Num 67984.23), (Num 8205.04, Num 59779.19), (Num 8287.09, Num 51492.11),
    (Num 8369.96, Num 43122.15), (Num 8453.66, Num 34668.49), (Num 8538.19, Num 26130.30),
    (Num 8623.58, Num 17506.72), (Num 8709.81, Num 8796.91), (Num 8796.91, Num 0)]"
  unfolding calculateLoan_def Let_def monthlyPayment_100000_12_12
  by (simp add: schedule_loop_step schedule_loop_end round2r_def round_half_up_def)

text \<open>
  C3. With annual rate 0 the annuity formula divides 0 by 0: \<open>calculateLoan\<close> has no
  zero-rate case, and its \<open>monthly_payment\<close> is \<open>NaN\<close> for every principal and term, not the
  principal divided by the term.
\<close>

theorem calculateLoan_zero_rate_NaN:
  "monthly_payment (calculateLoan principalAmt 0 termMonths) = NaN"
  by (simp add: calculateLoan_def round2_def)

text \<open>
  C7, as stated: for \<open>calculateLoan 100000 12 12\<close> the last row's \<open>remaining_balance\<close> is 0
  and the rounded \<open>principal_payment\<close> values add up to 100000. The second half fails: each
  row is rounded on its own, and the twelve rounded values add up to 100000.01.
\<close>

theorem amortization_sum_counterexample:
  "\<not> (remaining_balance (last (schedule (calculateLoan 100000 12 12))) = Num 0
      \<and> jsum (map principal_payment (schedule (calculateLoan 100000 12 12))) = Num 100000)"
proof -
  have "map principal_payment (schedule (calculateLoan 100000 12 12)) =
        map fst (map (\<lambda>row. (principal_payment row, remaining_balance row))
                   (schedule (calculateLoan 100000 12 12)))"
    by (simp add: comp_def)
  then show ?thesis
    unfolding schedule_100000_12_12 by (simp add: jsum_def)
qed

text \<open>
  C7, amended: for \<open>calculateLoan 100000 12 12\<close> the schedule has 12 rows, the last row's
  \<open>remaining_balance\<close> is exactly 0, and the rounded \<open>principal_payment\<close> values add up to
  100000.01, one cent more than the principal.
\<close>

theorem amortization_100000_12_12:
  "length (schedule (calculateLoan 100000 12 12)) = 12
   \<and> remaining_balance (last (schedule (calculateLoan 100000 12 12))) = Num 0
   \<and> jsum (map principal_payment (schedule (calculateLoan 100000 12 12))) = Num 100000.01"
proof -
  let ?rows = "schedule (calculateLoan 100000 12 12)"
  let ?pairs = "map (\<lambda>row. (principal_payment row, remaining_balance row)) ?rows"
  have len: "length ?rows = 12"
    using arg_cong [OF schedule_100000_12_12, of length] by simp
  then have ne: "?rows \<noteq> []" by auto
  have "remaining_balance (last ?rows) = snd (last ?pairs)"
    using ne by (simp add: last_map)
  then have rem: "remaining_balance (last ?rows) = Num 0"
    unfolding schedule_100000_12_12 by simp
  have "map principal_payment ?rows = map fst ?pairs"
    by (simp add: comp_def)
  then have "jsum (map principal_payment ?rows) = Num 100000.01"
    unfolding schedule_100000_12_12 by (simp add: jsum_def)
  with len rem show ?thesis by simp
qed

section \<open>Simple and compound interest\<close>

text \<open>
  C8, as stated: compound \<open>interest_earned\<close> is strictly greater than simple
  \<open>interest_earned\<close> for every positive principal, rate and term. Over a term of one
  month the two calculators agree: 10000 at 12 per cent earns 100 in both.
\<close>

theorem compound_vs_simple_counterexample:
  "\<not> interest_earned (calculateDeposit 10000 12 1)
       < interest_earned (calculateCompoundDeposit 10000 12 1)"
  by (simp add: calculateDeposit_def calculateCompoundDeposit_def Let_def round2r_def
      round_half_up_def)

text \<open>
  C8, amended: for principal 10000, annual rate 12 and a term of 12 months, compound
  \<open>interest_earned\<close> is 1268.25 and simple \<open>interest_earned\<close> is 1200, so the compound
  calculator's is strictly greater. Nothing is said of other inputs.
\<close>

theorem compound_exceeds_simple_10000_12_12:
  "interest_earned (calculateDeposit 10000 12 12) = 1200
   \<and> interest_earned (calculateCompoundDeposit 10000 12 12) = 1268.25
   \<and> interest_earned (calculateDeposit 10000 12 12)
       < interest_earned (calculateCompoundDeposit 10000 12 12)"
  by (simp add: calculateDeposit_def calculateCompoundDeposit_def Let_def round2r_def
      round_half_up_def power_divide)

section \<open>The wait of a leg\<close>

lemmas example_defs = alice_def bob_def empty_bank_def checking_kzt_def account_of_def
  two_accounts_def all_calls_served_def debit_rejected_def transfer_400_def no_legs_def

lemmas service_defs = createTransaction_def verify_account_def balance_leg_def
  key_share_locks_def insert_violation_def updateAccountBalance_def getAccountById_def
  or_null_def truthy_def rejected_def Let_def

lemma verify_account_None:
  "verify_account side x s = None \<longleftrightarrow>
     (\<forall>a. or_null x = Some a \<longrightarrow> (\<exists>row. getAccountById a s = Some row \<and> acc_status row = ACTIVE))"
  by (auto simp: verify_account_def split: option.splits)

lemma or_null_None: "or_null x = None \<longleftrightarrow> \<not> truthy x"
  by (auto simp: or_null_def truthy_def split: option.splits)

text \<open>A leg on a row the caller has locked returns only by being rejected.\<close>

lemma balance_leg_locked:
  assumes "or_null accountId = Some a" and "a \<in> set locked"
  shows "balance_leg env st locked accountId amt isDebit s
           = (if fails env st then (Some (Inl rejected), s) else (None, s))"
  using assms by (simp add: balance_leg_def)

lemma balance_leg_absent:
  assumes "or_null accountId = None"
  shows "balance_leg env st locked accountId amt isDebit s = (Some (Inr ()), s)"
  using assms by (simp add: balance_leg_def)

text \<open>Once the pending row is inserted, the first leg there is meets a lock of that very
  insert: no call of \<open>createTransaction\<close> commits anything, and none returns a
  transaction.\<close>

lemma createTransaction_outcome:
  "snd (createTransaction env d s) = s \<and> (\<forall>t. fst (createTransaction env d s) \<noteq> Some (Inr t))"
proof -
  let ?pending = "\<lparr> tx_id = newId env,
                      from_account_id = or_null (dto_from_account_id d),
                      to_account_id = or_null (dto_to_account_id d),
                      transaction_type = dto_transaction_type d,
                      amount = dto_amount d,
                      tx_currency = dto_tx_currency d,
                      exchange_rate = 1, fee = 0,
                      tx_status = PENDING,
                      description = or_null (dto_description d),
                      reference_number = referenceNumber env,
                      metadata = dto_metadata d \<rparr>"
  let ?locked = "key_share_locks ?pending"
  show ?thesis
  proof (cases "verify_account ''Source'' (dto_from_account_id d) s = None
                \<and> verify_account ''Destination'' (dto_to_account_id d) s = None
                \<and> \<not> fails env INSERT_TRANSACTION \<and> insert_violation ?pending s = None")
    case False
    then show ?thesis
      by (auto simp: createTransaction_def Let_def split: option.splits)
  next
    case True
    then have legs: "or_null (dto_from_account_id d) \<noteq> None \<or> or_null (dto_to_account_id d) \<noteq> None"
      by (auto simp: insert_violation_def split: if_splits)
    show ?thesis
    proof (cases "or_null (dto_from_account_id d)")
      case (Some a)
      then have "a \<in> set ?locked" by (simp add: key_share_locks_def)
      from balance_leg_locked [OF Some this]
      have "balance_leg env DEBIT ?locked (dto_from_account_id d) (dto_amount d) True s
              = (if fails env DEBIT then (Some (Inl rejected), s) else (None, s))" .
      then show ?thesis
        using True by (simp add: createTransaction_def Let_def)
    next
      case None
      then obtain b where b: "or_null (dto_to_account_id d) = Some b" using legs by auto
      then have "b \<in> set ?locked" by (simp add: key_share_locks_def)
      from balance_leg_locked [OF b this]
      have c: "balance_leg env CREDIT ?locked (dto_to_account_id d) (dto_amount d) False s
              = (if fails env CREDIT then (Some (Inl rejected), s) else (None, s))" .
      have "balance_leg env DEBIT ?locked (dto_from_account_id d) (dto_amount d) True s
              = (Some (Inr ()), s)"
        using None by (rule balance_leg_absent)
      then show ?thesis
        using True c by (simp add: createTransaction_def Let_def)
    qed
  qed
qed

lemma createTransaction_committed:
  assumes "createTransaction env d s = (r, s')"
  shows "s' = s"
  using createTransaction_outcome [of env d s] assms by simp

lemma transferToPhone_committed:
  assumes "transferToPhone env u a p amt descr s = (r, s')"
  shows "s' = s"
  using assms
  by (auto simp: transferToPhone_def
      split: option.splits prod.splits sum.splits dest: createTransaction_committed)

lemma transferToAccount_committed:
  assumes "transferToAccount env a n amt descr s = (r, s')"
  shows "s' = s"
  using assms
  by (auto simp: transferToAccount_def split: option.splits if_splits
      dest: createTransaction_committed)

section \<open>The ledger\<close>

lemma no_negative_balance_other_tables [simp]:
  "no_negative_balance (s\<lparr>transactions := t\<rparr>) = no_negative_balance s"
  "no_negative_balance (s\<lparr>deposits := d\<rparr>) = no_negative_balance s"
  by (simp_all add: no_negative_balance_def)

lemma updateAccountBalance_nonneg:
  assumes "updateAccountBalance a amt d s = (r, s')" and "no_negative_balance s"
  shows "no_negative_balance s'"
  using assms
  by (auto simp: updateAccountBalance_def no_negative_balance_def Let_def list_all_iff
      split: option.splits if_splits)

lemma updateAccountBalance_frame:
  assumes "updateAccountBalance a amt d s = (r, s')"
  shows "transactions s' = transactions s \<and> deposits s' = deposits s \<and> users s' = users s"
  using assms
  by (auto simp: updateAccountBalance_def Let_def split: option.splits if_splits)

text \<open>On a row whose two balances agree and are not negative, as \<open>createAccount\<close> makes
  them and \<open>updateAccountBalance\<close> keeps them, the guard of the debit alone keeps an amount
  that is not negative from violating the column constraint.\<close>

lemma updateAccountBalance_guard_suffices:
  assumes "getAccountById a s = Some row" and "available_balance row = balance row"
    and "0 \<le> balance row" and "0 \<le> amt"
  shows "fst (updateAccountBalance a amt d s) \<noteq> Inl (DatabaseError ''accounts_balance_check'')"
  using assms by (simp add: updateAccountBalance_def Let_def)

lemma createTransaction_nonneg:
  assumes "createTransaction env d s = (r, s')" and "no_negative_balance s"
  shows "no_negative_balance s'"
  using assms createTransaction_committed by blast

lemma transferToPhone_nonneg:
  assumes "transferToPhone env u a p amt descr s = (r, s')" and "no_negative_balance s"
  shows "no_negative_balance s'"
  using assms transferToPhone_committed by blast

lemma transferToAccount_nonneg:
  assumes "transferToAccount env a n amt descr s = (r, s')" and "no_negative_balance s"
  shows "no_negative_balance s'"
  using assms transferToAccount_committed by blast

lemma set_account_status_nonneg:
  "no_negative_balance s \<Longrightarrow> no_negative_balance (set_account_status st a s)"
  by (auto simp: set_account_status_def no_negative_balance_def list_all_iff)

lemma createAccount_nonneg:
  assumes "createAccount i draws u d s = Some (r, s')" and "no_negative_balance s"
  shows "no_negative_balance s'"
  using assms
  by (auto simp: createAccount_def no_negative_balance_def Let_def
      split: option.splits if_splits)

lemma update_deposit_nonneg [simp]:
  "no_negative_balance (update_deposit i f s) = no_negative_balance s"
  by (simp add: update_deposit_def)

lemma openDeposit_nonneg:
  assumes "openDeposit i now u a d s = (r, s')" and "no_negative_balance s"
  shows "no_negative_balance s'"
  using assms
  by (auto simp: openDeposit_def Let_def split: option.splits if_splits prod.splits sum.splits
      dest: updateAccountBalance_nonneg)

lemma closeDeposit_nonneg:
  assumes "closeDeposit i e s = (r, s')" and "no_negative_balance s"
  shows "no_negative_balance s'"
  using assms
  by (auto simp: closeDeposit_def split: option.splits if_splits prod.splits sum.splits
      dest: updateAccountBalance_nonneg)

lemma renewDeposit_nonneg:
  assumes "renewDeposit now i s = (r, s')" and "no_negative_balance s"
  shows "no_negative_balance s'"
  using assms
  by (auto simp: renewDeposit_def Let_def split: option.splits if_splits)

lemma accrueInterest_nonneg:
  assumes "accrueInterest i s = (r, s')" and "no_negative_balance s"
  shows "no_negative_balance s'"
  using assms
  by (auto simp: accrueInterest_def Let_def split: option.splits if_splits)

lemma process_matured_nonneg:
  "no_negative_balance s \<Longrightarrow> no_negative_balance (process_matured now ds s)"
proof (induction ds arbitrary: s)
  case Nil
  then show ?case by simp
next
  case (Cons d ds)
  have "no_negative_balance (snd (renewDeposit now (dep_id d) s))"
    using renewDeposit_nonneg [OF surjective_pairing Cons.prems] .
  moreover have "no_negative_balance (snd (closeDeposit (dep_id d) False s))"
    using closeDeposit_nonneg [OF surjective_pairing Cons.prems] .
  ultimately show ?case
    using Cons.IH by simp
qed

lemma apply_operation_nonneg:
  assumes "no_negative_balance s"
  shows "no_negative_balance (apply_operation operation s)"
proof (cases operation)
  case (CreateAccount i draws u d)
  then show ?thesis
    using assms createAccount_nonneg [of i draws u d s]
    by (cases "createAccount i draws u d s") auto
next
  case (UpdateAccountBalance a amt d)
  then show ?thesis using updateAccountBalance_nonneg [OF surjective_pairing assms] by simp
next
  case (BlockAccount a)
  then show ?thesis using assms by (simp add: blockAccount_def set_account_status_nonneg)
next
  case (UnblockAccount a)
  then show ?thesis using assms by (simp add: unblockAccount_def set_account_status_nonneg)
next
  case (CloseAccount a)
  then show ?thesis using assms
    by (simp add: closeAccount_def set_account_status_nonneg split: option.splits)
next
  case (CreateTransaction env d)
  then show ?thesis using createTransaction_nonneg [OF surjective_pairing assms] by simp
next
  case (TransferToPhone env u a p amt descr)
  then show ?thesis using transferToPhone_nonneg [OF surjective_pairing assms] by simp
next
  case (TransferToAccount env a n amt descr)
  then show ?thesis using transferToAccount_nonneg [OF surjective_pairing assms] by simp
next
  case (OpenDeposit i now u a d)
  then show ?thesis using openDeposit_nonneg [OF surjective_pairing assms] by simp
next
  case (AccrueInterest i)
  then show ?thesis using accrueInterest_nonneg [OF surjective_pairing assms] by simp
next
  case (CloseDeposit i e)
  then show ?thesis using closeDeposit_nonneg [OF surjective_pairing assms] by simp
next
  case (RenewDeposit now i)
  then show ?thesis using renewDeposit_nonneg [OF surjective_pairing assms] by simp
next
  case (ToggleAutoRenewal i b)
  then show ?thesis using assms by (simp add: toggleAutoRenewal_def)
next
  case (ProcessMaturedDeposits now)
  then show ?thesis using assms by (simp add: processMaturedDeposits_def process_matured_nonneg)
qed

lemma run_nonneg:
  "no_negative_balance s \<Longrightarrow> no_negative_balance (run operations s)"
  by (induction operations arbitrary: s) (simp_all add: apply_operation_nonneg)

text \<open>
  C2. Starting from a datastore in which no balance is negative (in particular one with no
  account yet), no history of service calls leads to a negative balance; an account is
  created with balance 0; and a debit through \<open>updateAccountBalance\<close> that finds
  \<open>available_balance < amount\<close> fails with \<open>Insufficient funds\<close> and leaves the datastore
  as it was.
\<close>

theorem balance_never_negative:
  assumes "no_negative_balance s"
  shows "no_negative_balance (run operations s)
    \<and> (\<forall>newId' draws userId accountData row s'.
          createAccount newId' draws userId accountData s = Some (Inr row, s')
          \<longrightarrow> balance row = 0 \<and> available_balance row = 0)
    \<and> (\<forall>accountId amt row.
          getAccountById accountId s = Some row \<and> available_balance row < amt
          \<longrightarrow> updateAccountBalance accountId amt True s = (Inl (Error ''Insufficient funds''), s))"
proof -
  have "balance row = 0 \<and> available_balance row = 0"
    if "createAccount i draws u d s = Some (Inr row, s')" for i draws u d row s'
    using that by (auto simp: createAccount_def Let_def split: option.splits if_splits)
  moreover have "updateAccountBalance a amt True s = (Inl (Error ''Insufficient funds''), s)"
    if "getAccountById a s = Some row" and "available_balance row < amt" for a amt row
    using that by (simp add: updateAccountBalance_def)
  ultimately show ?thesis
    using run_nonneg [OF assms] by blast
qed

theorem balance_never_negative_witness:
  "no_negative_balance empty_bank
   \<and> no_negative_balance (run history empty_bank)
   \<and> map balance (accounts (run history empty_bank)) = [600]
   \<and> updateAccountBalance ''a-alice'' 1000 True (run history empty_bank)
       = (Inl (Error ''Insufficient funds''), run history empty_bank)"
proof -
  have e: "no_negative_balance empty_bank"
    by (simp add: no_negative_balance_def empty_bank_def)
  have h: "run history empty_bank =
           empty_bank \<lparr> accounts := [account_of ''a-alice'' ''u-alice'' ''40000000000000000001'' 600] \<rparr>"
    by (simp add: history_def example_defs createAccount_def getAccountById_def
        updateAccountBalance_def Let_def)
  have g: "getAccountById ''a-alice'' (run history empty_bank)
           = Some (account_of ''a-alice'' ''u-alice'' ''40000000000000000001'' 600)"
    unfolding h by (simp add: getAccountById_def account_of_def)
  have a: "available_balance (account_of ''a-alice'' ''u-alice'' ''40000000000000000001'' 600) < 1000"
    by (simp add: account_of_def)
  have "no_negative_balance (run history empty_bank)"
    using balance_never_negative [OF e, of history] by simp
  moreover have "updateAccountBalance ''a-alice'' 1000 True (run history empty_bank)
       = (Inl (Error ''Insufficient funds''), run history empty_bank)"
    using balance_never_negative [of "run history empty_bank" "[]"] g a run_nonneg [OF e, of history]
    by auto
  moreover have "map balance (accounts (run history empty_bank)) = [600]"
    unfolding h by (simp add: account_of_def)
  ultimately show ?thesis using e by simp
qed


section \<open>Creating a transaction\<close>

text \<open>
  C1. Whatever the datastore rejects, and whether the call returns, throws or does not
  return, \<open>createTransaction\<close> leaves the committed datastore as it was: no pending row
  stays behind and no balance is changed on one side only. So it is when the call that
  debits Alice is rejected after the pending row was inserted: the call throws and the
  row is rolled back.
\<close>

theorem createTransaction_atomic:
  "snd (createTransaction env transactionData s) = s
   \<and> createTransaction debit_rejected transfer_400 two_accounts
       = (Some (Inl rejected), two_accounts)"
proof -
  have "createTransaction debit_rejected transfer_400 two_accounts
          = (Some (Inl rejected), two_accounts)"
    by (simp add: example_defs service_defs)
  then show ?thesis
    using createTransaction_outcome [of env transactionData s] by simp
qed

text \<open>
  C4. A leg is present when its account id is truthy. \<open>createTransaction\<close> fails and leaves
  the datastore as it was when no leg is present (the insert violates \<open>check_accounts\<close>),
  and when the account of a present leg does not exist or is not active. No call returns
  a transaction or adds a transaction row, so none is created for a request without a leg
  or with an account that is missing or not active.
\<close>

theorem createTransaction_validation:
  assumes "createTransaction env d s = (r, s')"
  shows "(\<not> truthy (dto_from_account_id d) \<and> \<not> truthy (dto_to_account_id d)
            \<longrightarrow> (\<exists>e. r = Some (Inl e)) \<and> s' = s)
    \<and> (\<forall>a. (or_null (dto_from_account_id d) = Some a \<or> or_null (dto_to_account_id d) = Some a)
            \<and> (case getAccountById a s of None \<Rightarrow> True | Some row \<Rightarrow> acc_status row \<noteq> ACTIVE)
          \<longrightarrow> (\<exists>e. r = Some (Inl e)) \<and> s' = s)
    \<and> transactions s' = transactions s
    \<and> (\<forall>t. r \<noteq> Some (Inr t))"
proof -
  have s: "s' = s" using createTransaction_committed [OF assms] .
  have 3: "\<forall>t. r \<noteq> Some (Inr t)"
    using createTransaction_outcome [of env d s] assms by simp
  have 1: "\<exists>e. r = Some (Inl e)"
    if "\<not> truthy (dto_from_account_id d)" "\<not> truthy (dto_to_account_id d)"
  proof -
    have n: "or_null (dto_from_account_id d) = None" "or_null (dto_to_account_id d) = None"
      using that by (simp_all add: or_null_None)
    show ?thesis
      using assms
      by (auto simp: createTransaction_def Let_def n insert_violation_def verify_account_def
          split: if_splits)
  qed
  have 2: "\<exists>e. r = Some (Inl e)"
    if "or_null (dto_from_account_id d) = Some a \<or> or_null (dto_to_account_id d) = Some a"
      and "case getAccountById a s of None \<Rightarrow> True | Some row \<Rightarrow> acc_status row \<noteq> ACTIVE" for a
  proof -
    have "verify_account ''Source'' (dto_from_account_id d) s \<noteq> None
          \<or> verify_account ''Destination'' (dto_to_account_id d) s \<noteq> None"
      using that by (auto simp: verify_account_None split: option.splits)
    then show ?thesis
      using assms by (auto simp: createTransaction_def split: option.splits)
  qed
  show ?thesis using s 1 2 3 by blast
qed

theorem createTransaction_validation_witness:
  "createTransaction all_calls_served no_legs two_accounts
     = (Some (Inl (DatabaseError ''check_accounts'')), two_accounts)
   \<and> createTransaction all_calls_served
        (transfer_400 \<lparr> dto_to_account_id := Some ''a-carol'' \<rparr>) two_accounts
     = (Some (Inl (Error ''Destination account not found'')), two_accounts)
   \<and> transactions (snd (createTransaction all_calls_served transfer_400 two_accounts))
     = transactions two_accounts"
proof -
  have v: "createTransaction all_calls_served no_legs two_accounts
             = (Some (Inl (DatabaseError ''check_accounts'')), two_accounts)"
    by (simp add: example_defs service_defs)
  have w: "createTransaction all_calls_served
             (transfer_400 \<lparr> dto_to_account_id := Some ''a-carol'' \<rparr>) two_accounts
           = (Some (Inl (Error ''Destination account not found'')), two_accounts)"
    by (simp add: example_defs service_defs)
  have p: "createTransaction all_calls_served transfer_400 two_accounts
             = (fst (createTransaction all_calls_served transfer_400 two_accounts),
                snd (createTransaction all_calls_served transfer_400 two_accounts))"
    by simp
  have "transactions (snd (createTransaction all_calls_served transfer_400 two_accounts))
          = transactions two_accounts"
    using createTransaction_validation [OF p] by simp
  moreover have "\<exists>e. Some (Inl (DatabaseError ''check_accounts'') :: error + Transaction)
                      = Some (Inl e)"
    using createTransaction_validation [OF v] by (simp add: example_defs truthy_def)
  ultimately show ?thesis using v w by simp
qed

section \<open>Transfers\<close>

lemmas transfer_defs = transferToPhone_def transferToAccount_def phone_transfer_def
  account_transfer_def

text \<open>
  C6, at a failing input. Alice holds 1000 and Bob 0, both accounts are active and in the
  same currency, and every datastore call is served. A transfer of 400 to Bob's phone,
  and one to Bob's account number, pass the lookups and reach \<open>createTransaction\<close>, whose
  debit waits for the lock of its own pending insert: neither call returns, and the
  committed datastore stays as it was, with no transaction and both balances unchanged.
\<close>

theorem transfers_do_not_return:
  "transferToPhone all_calls_served ''u-alice'' ''a-alice'' ''+77010000002'' 400 None two_accounts
     = (None, two_accounts)
   \<and> transferToAccount all_calls_served ''a-alice'' ''40000000000000000002'' 400 None two_accounts
     = (None, two_accounts)"
  by (simp add: example_defs service_defs transfer_defs)

section \<open>Deposits\<close>

lemmas deposit_defs = openDeposit_def closeDeposit_def renewDeposit_def accrueInterest_def
  getDepositById_def deposit_violation_def update_deposit_def returnAmount_def isAccountOwner_def
  calculateDeposit_def calculateCompoundDeposit_def round2r_def round_half_up_def

lemma find_Some_holds: "find P xs = Some x \<Longrightarrow> P x \<and> x \<in> set xs"
  by (induction xs) (auto split: if_splits)

lemma find_snoc:
  "find P (xs @ [x]) = (case find P xs of None \<Rightarrow> (if P x then Some x else None) | Some y \<Rightarrow> Some y)"
  by (induction xs) auto

lemma accrueInterest_not_fixed:
  assumes "getDepositById depositId s = Some deposit"
    and "dep_status deposit = DEPOSIT_ACTIVE" and "deposit_type deposit \<noteq> FIXED"
  shows "accrueInterest depositId s = (Inr (), s)"
  using assms by (simp add: accrueInterest_def Let_def)

lemma accrual_passes_not_fixed:
  assumes "getDepositById depositId s = Some deposit"
    and "dep_status deposit = DEPOSIT_ACTIVE" and "deposit_type deposit \<noteq> FIXED"
  shows "accrual_passes n depositId s = s"
  using accrueInterest_not_fixed [OF assms] by (induction n) simp_all

lemma openDeposit_Inr:
  assumes "openDeposit depositId now userId accountId depositData s = (Inr row, s')"
  shows "getDepositById depositId s' = Some row
         \<and> dep_status row = DEPOSIT_ACTIVE
         \<and> deposit_type row = dto_deposit_type depositData
         \<and> principal_amount row = dto_principal_amount depositData
         \<and> current_balance row = dto_principal_amount depositData"
  using assms
  by (auto simp: openDeposit_def Let_def deposit_violation_def getDepositById_def find_snoc
      split: if_splits prod.splits sum.splits option.splits)

lemma flexible_balances_intact_other_tables [simp]:
  "flexible_balances_intact (s\<lparr>transactions := t\<rparr>) = flexible_balances_intact s"
  "flexible_balances_intact (s\<lparr>accounts := a\<rparr>) = flexible_balances_intact s"
  by (simp_all add: flexible_balances_intact_def)

lemma find_unique:
  assumes "distinct (map key xs)" and "find (\<lambda>x. key x = k) xs = Some y"
    and "x \<in> set xs" and "key x = k"
  shows "x = y"
  using assms
proof (induction xs)
  case Nil
  then show ?case by simp
next
  case (Cons a xs)
  then show ?case
    by (auto split: if_splits simp: image_iff dest: find_Some_holds)
qed

lemma update_deposit_intact:
  assumes "flexible_balances_intact s"
    and "\<And>d. dep_id (f d) = dep_id d"
    and "\<And>d. d \<in> set (deposits s) \<Longrightarrow> dep_id d = i \<Longrightarrow> plain_balance (f d)"
  shows "flexible_balances_intact (update_deposit i f s)"
proof -
  have "dep_id \<circ> (\<lambda>d. if dep_id d = i then f d else d) = dep_id"
    using assms(2) by (auto simp: fun_eq_iff)
  then show ?thesis
    using assms by (auto simp: flexible_balances_intact_def update_deposit_def list_all_iff)
qed

lemma updateAccountBalance_intact:
  assumes "updateAccountBalance a amt d s = (r, s')" and "flexible_balances_intact s"
  shows "flexible_balances_intact s'"
  using assms updateAccountBalance_frame [OF assms(1)]
  by (simp add: flexible_balances_intact_def)

lemma createTransaction_intact:
  assumes "createTransaction env d s = (r, s')" and "flexible_balances_intact s"
  shows "flexible_balances_intact s'"
  using assms createTransaction_committed by blast

lemma transferToPhone_intact:
  assumes "transferToPhone env u a p amt descr s = (r, s')" and "flexible_balances_intact s"
  shows "flexible_balances_intact s'"
  using assms transferToPhone_committed by blast

lemma transferToAccount_intact:
  assumes "transferToAccount env a n amt descr s = (r, s')" and "flexible_balances_intact s"
  shows "flexible_balances_intact s'"
  using assms transferToAccount_committed by blast

lemma createAccount_intact:
  assumes "createAccount i draws u d s = Some (r, s')" and "flexible_balances_intact s"
  shows "flexible_balances_intact s'"
  using assms
  by (auto simp: createAccount_def Let_def split: option.splits if_splits)

lemma openDeposit_intact:
  assumes "openDeposit i now u a d s = (r, s')" and "flexible_balances_intact s"
  shows "flexible_balances_intact s'"
proof -
  obtain r1 s1 where u: "updateAccountBalance a (dto_principal_amount d) True s = (r1, s1)"
    by force
  have i1: "flexible_balances_intact s1" using updateAccountBalance_intact [OF u assms(2)] .
  have fresh: "i \<notin> dep_id ` set (deposits s1)" if "getDepositById i s1 = None"
    using that by (auto simp: getDepositById_def find_None_iff)
  show ?thesis
    using assms u i1 fresh
    by (auto simp: openDeposit_def Let_def deposit_violation_def flexible_balances_intact_def
        plain_balance_def split: if_splits sum.splits option.splits)
qed

lemma accrueInterest_intact:
  assumes "accrueInterest i s = (r, s')" and "flexible_balances_intact s"
  shows "flexible_balances_intact s'"
proof (cases "getDepositById i s")
  case None
  then show ?thesis using assms by (simp add: accrueInterest_def)
next
  case (Some deposit)
  have same: "d = deposit" if "d \<in> set (deposits s)" "dep_id d = i" for d
    using find_unique [of dep_id "deposits s" i deposit d] Some assms(2) that
    by (simp add: flexible_balances_intact_def getDepositById_def)
  have "flexible_balances_intact (update_deposit i (\<lambda>d. d\<lparr>current_balance := b\<rparr>) s)"
    if "deposit_type deposit = FIXED" for b
    using assms(2) same that
    by (intro update_deposit_intact) (auto simp: plain_balance_def)
  then show ?thesis
    using assms Some by (auto simp: accrueInterest_def Let_def split: if_splits)
qed

lemma closeDeposit_intact:
  assumes "closeDeposit i e s = (r, s')" and "flexible_balances_intact s"
  shows "flexible_balances_intact s'"
proof -
  have c: "flexible_balances_intact
             (update_deposit i (\<lambda>d. d\<lparr>dep_status := DEPOSIT_CLOSED, current_balance := b\<rparr>) s1)"
    if "flexible_balances_intact s1" for b s1
    using that by (intro update_deposit_intact) (auto simp: plain_balance_def)
  show ?thesis
    using assms c
    by (auto simp: closeDeposit_def split: option.splits if_splits prod.splits sum.splits
        dest: updateAccountBalance_intact)
qed

lemma renewDeposit_intact:
  assumes "renewDeposit now i s = (r, s')" and "flexible_balances_intact s"
  shows "flexible_balances_intact s'"
proof -
  have c: "flexible_balances_intact
             (update_deposit i (\<lambda>d. d\<lparr>principal_amount := b, current_balance := b,
                                      start_date := x, maturity_date := y,
                                      dep_status := DEPOSIT_ACTIVE\<rparr>) s)" for b x y
    using assms(2) by (intro update_deposit_intact) (auto simp: plain_balance_def)
  show ?thesis
    using assms c
    by (auto simp: renewDeposit_def Let_def split: option.splits if_splits)
qed

lemma toggleAutoRenewal_intact:
  assumes "flexible_balances_intact s"
  shows "flexible_balances_intact (snd (toggleAutoRenewal i b s))"
proof -
  have "plain_balance (d\<lparr>is_auto_renewal := b\<rparr>)" if "d \<in> set (deposits s)" for d
    using assms that by (auto simp: flexible_balances_intact_def list_all_iff plain_balance_def)
  then show ?thesis
    using assms by (simp add: toggleAutoRenewal_def update_deposit_intact)
qed

lemma set_account_status_intact:
  "flexible_balances_intact s \<Longrightarrow> flexible_balances_intact (set_account_status st a s)"
  by (simp add: set_account_status_def)

lemma process_matured_intact:
  "flexible_balances_intact s \<Longrightarrow> flexible_balances_intact (process_matured now ds s)"
proof (induction ds arbitrary: s)
  case Nil
  then show ?case by simp
next
  case (Cons d ds)
  have "flexible_balances_intact (snd (renewDeposit now (dep_id d) s))"
    using renewDeposit_intact [OF surjective_pairing Cons.prems] .
  moreover have "flexible_balances_intact (snd (closeDeposit (dep_id d) False s))"
    using closeDeposit_intact [OF surjective_pairing Cons.prems] .
  ultimately show ?case
    using Cons.IH by simp
qed

lemma apply_operation_intact:
  assumes "flexible_balances_intact s"
  shows "flexible_balances_intact (apply_operation operation s)"
proof (cases operation)
  case (CreateAccount i draws u d)
  then show ?thesis
    using assms createAccount_intact [of i draws u d s]
    by (cases "createAccount i draws u d s") auto
next
  case (UpdateAccountBalance a amt d)
  then show ?thesis using updateAccountBalance_intact [OF surjective_pairing assms] by simp
next
  case (BlockAccount a)
  then show ?thesis using assms by (simp add: blockAccount_def set_account_status_intact)
next
  case (UnblockAccount a)
  then show ?thesis using assms by (simp add: unblockAccount_def set_account_status_intact)
next
  case (CloseAccount a)
  then show ?thesis using assms
    by (simp add: closeAccount_def set_account_status_intact split: option.splits)
next
  case (CreateTransaction env d)
  then show ?thesis using createTransaction_intact [OF surjective_pairing assms] by simp
next
  case (TransferToPhone env u a p amt descr)
  then show ?thesis using transferToPhone_intact [OF surjective_pairing assms] by simp
next
  case (TransferToAccount env a n amt descr)
  then show ?thesis using transferToAccount_intact [OF surjective_pairing assms] by simp
next
  case (OpenDeposit i now u a d)
  then show ?thesis using openDeposit_intact [OF surjective_pairing assms] by simp
next
  case (AccrueInterest i)
  then show ?thesis using accrueInterest_intact [OF surjective_pairing assms] by simp
next
  case (CloseDeposit i e)
  then show ?thesis using closeDeposit_intact [OF surjective_pairing assms] by simp
next
  case (RenewDeposit now i)
  then show ?thesis using renewDeposit_intact [OF surjective_pairing assms] by simp
next
  case (ToggleAutoRenewal i b)
  then show ?thesis using toggleAutoRenewal_intact [OF assms] by simp
next
  case (ProcessMaturedDeposits now)
  then show ?thesis using assms by (simp add: processMaturedDeposits_def process_matured_intact)
qed

lemma run_intact:
  "flexible_balances_intact s \<Longrightarrow> flexible_balances_intact (run operations s)"
  by (induction operations arbitrary: s) (simp_all add: apply_operation_intact)

text \<open>
  C10. On an active deposit that is not fixed, \<open>accrueInterest\<close> succeeds and writes
  nothing: the datastore after the call, and after any number of accrual passes, is the
  datastore before. A deposit opened as flexible or savings is therefore still the row
  \<open>openDeposit\<close> returned after any number of passes, with \<open>current_balance\<close> equal to its
  \<open>principal_amount\<close>. Over every history of calls, each active deposit that is not fixed
  keeps \<open>current_balance\<close> equal to the \<open>principal_amount\<close> of its row (a renewal sets both
  to the same amount).
\<close>

theorem accrueInterest_frame:
  "(getDepositById depositId s = Some deposit \<and> dep_status deposit = DEPOSIT_ACTIVE
      \<and> deposit_type deposit \<noteq> FIXED
    \<longrightarrow> accrueInterest depositId s = (Inr (), s) \<and> accrual_passes n depositId s = s)
   \<and> (openDeposit depositId now userId accountId depositData s0 = (Inr opened, s1)
      \<and> dto_deposit_type depositData \<noteq> FIXED
    \<longrightarrow> getDepositById depositId (accrual_passes n depositId s1) = Some opened
        \<and> principal_amount opened = dto_principal_amount depositData
        \<and> current_balance opened = principal_amount opened)
   \<and> (flexible_balances_intact s \<longrightarrow> flexible_balances_intact (run operations s))"
proof (intro conjI impI)
  assume a: "getDepositById depositId s = Some deposit \<and> dep_status deposit = DEPOSIT_ACTIVE
      \<and> deposit_type deposit \<noteq> FIXED"
  then show "accrueInterest depositId s = (Inr (), s)"
    using accrueInterest_not_fixed by blast
  from a show "accrual_passes n depositId s = s"
    using accrual_passes_not_fixed by blast
next
  assume a: "openDeposit depositId now userId accountId depositData s0 = (Inr opened, s1)
      \<and> dto_deposit_type depositData \<noteq> FIXED"
  then have o: "getDepositById depositId s1 = Some opened" "dep_status opened = DEPOSIT_ACTIVE"
    "deposit_type opened \<noteq> FIXED" "principal_amount opened = dto_principal_amount depositData"
    "current_balance opened = dto_principal_amount depositData"
    using openDeposit_Inr [of depositId now userId accountId depositData s0 opened s1] by simp_all
  show "getDepositById depositId (accrual_passes n depositId s1) = Some opened"
    using accrual_passes_not_fixed [OF o(1,2,3)] o(1) by simp
  show "principal_amount opened = dto_principal_amount depositData" using o by simp
  show "current_balance opened = principal_amount opened" using o by simp
next
  assume "flexible_balances_intact s"
  then show "flexible_balances_intact (run operations s)" by (rule run_intact)
qed

theorem accrueInterest_frame_witness:
  "(\<exists>opened s1. openDeposit ''d-1'' 0 ''u-alice'' ''a-alice'' flexible_auto two_accounts
                  = (Inr opened, s1)
     \<and> accrueInterest ''d-1'' s1 = (Inr (), s1)
     \<and> accrual_passes 3 ''d-1'' s1 = s1
     \<and> getDepositById ''d-1'' (accrual_passes 3 ''d-1'' s1) = Some opened
     \<and> current_balance opened = 1000)
   \<and> flexible_balances_intact two_accounts
   \<and> flexible_balances_intact (run deposit_life two_accounts)
   \<and> map dep_status (deposits (run deposit_life two_accounts)) = [DEPOSIT_ACTIVE]"
proof -
  obtain opened s1 where
    o: "openDeposit ''d-1'' 0 ''u-alice'' ''a-alice'' flexible_auto two_accounts = (Inr opened, s1)"
    by (simp add: flexible_auto_def example_defs deposit_defs updateAccountBalance_def
        getAccountById_def Let_def)
  have t: "dto_deposit_type flexible_auto \<noteq> FIXED" "dto_principal_amount flexible_auto = 1000"
    by (simp_all add: flexible_auto_def)
  have i: "flexible_balances_intact two_accounts"
    by (simp add: flexible_balances_intact_def two_accounts_def)
  note v = accrueInterest_frame [of "''d-1''" s1 opened 3 0 "''u-alice''" "''a-alice''"
      flexible_auto two_accounts opened s1]
  have g: "getDepositById ''d-1'' (accrual_passes 3 ''d-1'' s1) = Some opened"
    "current_balance opened = 1000"
    using v o t by simp_all
  have "dep_status opened = DEPOSIT_ACTIVE \<and> deposit_type opened \<noteq> FIXED
        \<and> getDepositById ''d-1'' s1 = Some opened"
    using openDeposit_Inr [OF o] t by simp
  then have p: "accrueInterest ''d-1'' s1 = (Inr (), s1) \<and> accrual_passes 3 ''d-1'' s1 = s1"
    using v by simp
  have r: "flexible_balances_intact (run deposit_life two_accounts)"
    using accrueInterest_frame [of "''d-1''" two_accounts opened 3 0 "''u-alice''" "''a-alice''"
        flexible_auto two_accounts opened s1 deposit_life] i
    by simp
  have l: "map dep_status (deposits (run deposit_life two_accounts)) = [DEPOSIT_ACTIVE]"
    by (simp add: deposit_life_def flexible_auto_def example_defs deposit_defs
        updateAccountBalance_def getAccountById_def Let_def)
  show ?thesis using o g p i r l by blast
qed

text \<open>
  C5, at a failing input. Alice opens a flexible deposit of 1000 with automatic renewal
  and closes it early: the deposit is \<open>closed\<close> and the 1000 are back on her account. A
  call of \<open>renewDeposit\<close> on it succeeds, since \<open>renewDeposit\<close> checks \<open>is_auto_renewal\<close> and
  never the status, and the row is \<open>active\<close> again.
\<close>

theorem renewDeposit_reopens_closed_deposit:
  "map dep_status (deposits (run open_and_close two_accounts)) = [DEPOSIT_CLOSED]
   \<and> map balance (accounts (run open_and_close two_accounts)) = [1000, 0]
   \<and> (\<exists>row. fst (renewDeposit 12 ''d-1'' (run open_and_close two_accounts)) = Inr row
         \<and> dep_status row = DEPOSIT_ACTIVE)
   \<and> map dep_status (deposits (snd (renewDeposit 12 ''d-1'' (run open_and_close two_accounts))))
       = [DEPOSIT_ACTIVE]"
proof -
  have r: "run open_and_close two_accounts =
           two_accounts \<lparr> deposits :=
             [\<lparr> dep_id = ''d-1'', dep_user_id = ''u-alice'', dep_account_id = Some ''a-alice'',
                deposit_type = FLEXIBLE, principal_amount = 1000, interest_rate = 12,
                term_months = 12, current_balance = 1000, dep_status = DEPOSIT_CLOSED,
                start_date = 0, maturity_date = 12, is_auto_renewal = True \<rparr>] \<rparr>"
    by (simp add: open_and_close_def flexible_auto_def example_defs deposit_defs
        updateAccountBalance_def getAccountById_def or_null_def truthy_def Let_def)
  show ?thesis
    unfolding r
    by (simp add: example_defs deposit_defs Let_def)
qed

end
